theory Spec2Isabelle
  imports Main "HOL-Library.Word"
begin

unbundle bit_operations_syntax

section \<open>Data model\<close>

type_synonym u64 = "64 word"
type_synonym u32 = "32 word"
type_synonym byte = "8 word"

text \<open>
  \<^verbatim>\<open>gosym.Func\<close> and \<^verbatim>\<open>gosym.Table\<close> belong to the Go standard library. Of a function
  the debugger reads the name only; of the table it calls \<^verbatim>\<open>PCToLine\<close> and
  \<^verbatim>\<open>LineToPC\<close>. A \<^verbatim>\<open>nil\<close> function result of \<^verbatim>\<open>PCToLine\<close> is \<open>None\<close>; an error result of
  \<^verbatim>\<open>LineToPC\<close> (which comes with the address 0) is \<open>None\<close>.
\<close>

record Func =
  Name :: string
  Entry :: u64

record Table =
  PCToLine :: "u64 \<Rightarrow> (string \<times> int \<times> Func) option"
  LineToPC :: "string \<Rightarrow> int \<Rightarrow> u64 option"

text \<open>Of \<^verbatim>\<open>syscall.PtraceRegs\<close> the debugger reads three registers.\<close>

record PtraceRegs =
  Rip :: u64
  Rsp :: u64
  Rbp :: u64

text \<open>The struct \<^verbatim>\<open>Debugger\<close> of \<^verbatim>\<open>debugger/def.go\<close>, field by field.\<close>

record Debugger =
  TargetFile :: string
  Line :: int
  PC :: u64
  Fn :: "Func option"
  SymTable :: Table
  Regs :: PtraceRegs
  Ws :: u32
  OriginalCode :: "byte list"
  BreakpointSet :: bool
  InterruptCode :: "byte list"

text \<open>\<^verbatim>\<open>NewDebugger\<close>: the flag is off and the trap instruction is the single byte 0xCC;
  every other field has the zero value of its type. The \<^verbatim>\<open>nil\<close> symbol table, which
  \<^verbatim>\<open>Run\<close> replaces before any use, is the table that resolves nothing.\<close>

definition NewDebugger :: Debugger where
  "NewDebugger =
     \<lparr>TargetFile = [], Line = 0, PC = 0, Fn = None,
      SymTable = \<lparr>PCToLine = (\<lambda>pc. None), LineToPC = (\<lambda>file line. None)\<rparr>,
      Regs = \<lparr>Rip = 0, Rsp = 0, Rbp = 0\<rparr>, Ws = 0,
      OriginalCode = [], BreakpointSet = False, InterruptCode = [0xCC]\<rparr>"

section \<open>The process under trace, the terminal and the outcome of a call\<close>

text \<open>
  What the program prints, one constructor for each \<^verbatim>\<open>Printf\<close>/\<^verbatim>\<open>Println\<close> of the code
  modelled below, carrying the arguments of the format string.
\<close>

datatype out =
    Menu
  | LinePrompt string
  | Unexpected string
  | CantFind string int
  | StrangeFrame u64 u64
  | CalledBy string int
  | StoppedAt string int string
  | Blank

text \<open>The trace requests the program issues, in the order it issues them.\<close>

datatype syscall =
    PeekData int u64 nat
  | PokeData int u64 "byte list"
  | GetRegs int
  | Cont int
  | SingleStep int

text \<open>
  The world outside the struct: the address space of the traced process (a byte at every
  readable address, \<open>None\<close> where a peek or poke fails), the log of the trace requests made so
  far, the lines still to come on standard input and the text printed so far. The tracees
  are the threads of one process and share the address space; a process that is gone has
  no readable address. The lines of input arrive one at a time, as from a terminal, so
  that a scanner takes nothing but the lines it returns.
\<close>

record sys =
  mem :: "u64 \<Rightarrow> byte option"
  calls :: "syscall list"
  stdin :: "string list"
  stdout :: "out list"

datatype panic = PeekError | SliceBounds | NilPointer | MustError

text \<open>
  A call returns, panics, leaves the program through \<^verbatim>\<open>os.Exit(0)\<close>, repeats one and the
  same iteration for ever on an exhausted standard input (\<open>Spin\<close>), or blocks in
  \<^verbatim>\<open>Wait4\<close> when no event is left (\<open>Blocked\<close>).
\<close>

datatype 'a outcome =
    Return 'a sys
  | Panic panic sys
  | Exit0 sys
  | Spin sys
  | Blocked sys

definition print :: "out \<Rightarrow> sys \<Rightarrow> sys" where
  "print x s = s\<lparr>stdout := stdout s @ [x]\<rparr>"

definition record_call :: "syscall \<Rightarrow> sys \<Rightarrow> sys" where
  "record_call c s = s\<lparr>calls := calls s @ [c]\<rparr>"

section \<open>Memory Patcher: peek and poke\<close>

text \<open>
  \<^verbatim>\<open>syscall.PtracePeekData(pid, addr, out)\<close> fills the buffer \<open>out\<close> from the address on and
  reports an error at the first address it cannot read; the bytes of the buffer from there
  on keep their old value. \<^verbatim>\<open>syscall.PtracePokeData(pid, addr, data)\<close> writes the bytes
  in order and stops with an error at the first address it cannot write. Addresses wrap
  around as \<^verbatim>\<open>uintptr\<close> does. The second component of each result says that no error
  occurred. The kernel serves such a request word by word; the model goes byte by byte,
  which gives the same results where the readable addresses come in whole aligned words,
  as the pages of a process do.
\<close>

fun peek :: "(u64 \<Rightarrow> byte option) \<Rightarrow> u64 \<Rightarrow> byte list \<Rightarrow> byte list \<times> bool" where
  "peek m a [] = ([], True)"
| "peek m a (b # bs) =
     (case m a of
        None \<Rightarrow> (b # bs, False)
      | Some v \<Rightarrow> (case peek m (a + 1) bs of (r, ok) \<Rightarrow> (v # r, ok)))"

fun poke :: "(u64 \<Rightarrow> byte option) \<Rightarrow> u64 \<Rightarrow> byte list \<Rightarrow> (u64 \<Rightarrow> byte option) \<times> bool" where
  "poke m a [] = (m, True)"
| "poke m a (b # bs) =
     (case m a of
        None \<Rightarrow> (m, False)
      | Some v \<Rightarrow> poke (m(a := Some b)) (a + 1) bs)"

definition PtracePeekData :: "int \<Rightarrow> u64 \<Rightarrow> byte list \<Rightarrow> sys \<Rightarrow> (byte list \<times> bool) \<times> sys" where
  "PtracePeekData pid addr buf s =
     (peek (mem s) addr buf, record_call (PeekData pid addr (length buf)) s)"

definition PtracePokeData :: "int \<Rightarrow> u64 \<Rightarrow> byte list \<Rightarrow> sys \<Rightarrow> bool \<times> sys" where
  "PtracePokeData pid addr data s =
     (case poke (mem s) addr data of
        (m', ok) \<Rightarrow> (ok, record_call (PokeData pid addr data) (s\<lparr>mem := m'\<rparr>)))"

text \<open>\<^verbatim>\<open>make([]byte, n)\<close>: n zero bytes.\<close>

definition make_bytes :: "nat \<Rightarrow> byte list" where
  "make_bytes n = replicate n 0"

section \<open>Breakpoint Manager\<close>

text \<open>
  \<^verbatim>\<open>ReplaceCode\<close>: the two results of \<^verbatim>\<open>PtracePeekData\<close> and the result of
  \<^verbatim>\<open>PtracePokeData\<close> are not looked at; the buffer is returned as it is after the peek.
\<close>

definition ReplaceCode :: "int \<Rightarrow> u64 \<Rightarrow> byte list \<Rightarrow> sys \<Rightarrow> byte list \<times> sys" where
  "ReplaceCode pid address code s =
     (case PtracePeekData pid address (make_bytes (length code)) s of
        ((original, peek_ok), s1) \<Rightarrow>
          (case PtracePokeData pid address code s1 of
             (poke_ok, s2) \<Rightarrow> (original, s2)))"

text \<open>
  \<^verbatim>\<open>SetBreak\<close>: \<^verbatim>\<open>d.PC\<close> is assigned from \<^verbatim>\<open>LineToPC\<close> before the error is looked
  at, so a failed resolution leaves the address 0 in it.
\<close>

definition SetBreak :: "Debugger \<Rightarrow> int \<Rightarrow> sys \<Rightarrow> (bool \<times> byte list) \<times> Debugger \<times> sys" where
  "SetBreak d pid s =
     (case LineToPC (SymTable d) (TargetFile d) (Line d) of
        None \<Rightarrow>
          ((False, []), d\<lparr>PC := 0\<rparr>, print (CantFind (TargetFile d) (Line d)) s)
      | Some pc \<Rightarrow>
          (case ReplaceCode pid pc (InterruptCode d) s of
             (original, s') \<Rightarrow> ((True, original), d\<lparr>PC := pc\<rparr>, s')))"

section \<open>Decision source: the menu\<close>

text \<open>
  \<^verbatim>\<open>strings.ToUpper\<close> on the bytes of an ASCII line: the letters a to z are mapped to
  A to Z, every other byte is kept. The result is only compared with the four command
  letters.
\<close>

definition upper_char :: "char \<Rightarrow> char" where
  "upper_char c =
     (case map_of (zip ''abcdefghijklmnopqrstuvwxyz'' ''ABCDEFGHIJKLMNOPQRSTUVWXYZ'') c of
        None \<Rightarrow> c
      | Some u \<Rightarrow> u)"

definition ToUpper :: "string \<Rightarrow> string" where
  "ToUpper s = map upper_char s"

text \<open>
  \<^verbatim>\<open>strconv.Atoi\<close> on a platform with 64-bit \<^verbatim>\<open>int\<close>: an optional sign and at least
  one decimal digit. A syntax error comes with the value 0, a range error with the nearest
  representable value. The second component says that no error occurred.
\<close>

definition is_digit :: "char \<Rightarrow> bool" where
  "is_digit c = (48 \<le> (of_char c :: nat) \<and> (of_char c :: nat) \<le> 57)"

definition digits_value :: "string \<Rightarrow> int" where
  "digits_value ds = foldl (\<lambda>n c. n * 10 + (int (of_char c) - 48)) 0 ds"

definition Atoi :: "string \<Rightarrow> int \<times> bool" where
  "Atoi s =
     (let neg = (s \<noteq> [] \<and> hd s = CHR ''-'');
          ds = (if s \<noteq> [] \<and> (hd s = CHR ''-'' \<or> hd s = CHR ''+'') then tl s else s)
      in if ds = [] \<or> \<not> list_all is_digit ds then (0, False)
         else if \<not> neg \<and> 2 ^ 63 \<le> digits_value ds then (2 ^ 63 - 1, False)
         else if neg \<and> 2 ^ 63 < digits_value ds then (- (2 ^ 63), False)
         else (if neg then - digits_value ds else digits_value ds, True))"

text \<open>
  \<^verbatim>\<open>InputOrContinue\<close>. The loop reads one line in each iteration. At the end of the
  input \<^verbatim>\<open>scanner.Text()\<close> is the empty string in every further iteration: with
  \<^verbatim>\<open>sub\<close> set this takes the default branch once and returns, without it the same
  iteration repeats for ever.
\<close>

definition default_case :: "Debugger \<Rightarrow> int \<Rightarrow> string \<Rightarrow> sys \<Rightarrow> (bool \<times> Debugger) outcome" where
  "default_case d pid input s =
     (let d1 = d\<lparr>Line := fst (Atoi input)\<rparr>
      in case SetBreak d1 pid s of
           ((ok, original), d2, s') \<Rightarrow>
             Return (True, d2\<lparr>BreakpointSet := ok, OriginalCode := original\<rparr>) s')"

fun menu_loop :: "Debugger \<Rightarrow> int \<Rightarrow> bool \<Rightarrow> string list \<Rightarrow> sys \<Rightarrow> (bool \<times> Debugger) outcome" where
  "menu_loop d pid sub [] s =
     (if sub then default_case d pid [] (s\<lparr>stdin := []\<rparr>) else Spin (s\<lparr>stdin := []\<rparr>))"
| "menu_loop d pid sub (input # rest) s =
     (let s0 = s\<lparr>stdin := rest\<rparr>
      in if ToUpper input = ''C'' then Return (True, d) s0
         else if ToUpper input = ''S'' then Return (False, d) s0
         else if ToUpper input = ''B'' then
           menu_loop d pid True rest (print (LinePrompt (TargetFile d)) s0)
         else if ToUpper input = ''Q'' then Exit0 s0
         else if sub then default_case d pid input s0
         else menu_loop d pid sub rest (print Menu (print (Unexpected input) s0)))"

definition InputOrContinue :: "Debugger \<Rightarrow> int \<Rightarrow> sys \<Rightarrow> (bool \<times> Debugger) outcome" where
  "InputOrContinue d pid s = menu_loop d pid False (stdin s) (print Menu s)"

section \<open>Stack Unwinder\<close>

text \<open>
  The slice expression \<^verbatim>\<open>b[lo:hi]\<close> with \<^verbatim>\<open>uint64\<close> bounds on a slice made by
  \<^verbatim>\<open>make\<close> (capacity equal to length): a run-time panic unless \<open>lo \<le> hi \<le> len(b)\<close>.
\<close>

definition slice :: "byte list \<Rightarrow> u64 \<Rightarrow> u64 \<Rightarrow> byte list option" where
  "slice b lo hi =
     (if lo \<le> hi \<and> unat hi \<le> length b
      then Some (take (unat hi - unat lo) (drop (unat lo) b)) else None)"

text \<open>\<^verbatim>\<open>binary.LittleEndian.Uint64\<close> on the eight bytes of such a slice.\<close>

fun Uint64 :: "byte list \<Rightarrow> u64" where
  "Uint64 [] = 0"
| "Uint64 (x # xs) = ucast x OR push_bit 8 (Uint64 xs)"

text \<open>
  Lines 98 to 106: the frame size in \<^verbatim>\<open>uint64\<close> arithmetic and the fallback. The result
  is the frame size and the frame pointer in force afterwards.
\<close>

definition frame_bounds :: "u64 \<Rightarrow> u64 \<Rightarrow> sys \<Rightarrow> u64 \<times> u64 \<times> sys" where
  "frame_bounds sp bp s =
     (let frameSize = bp - sp + 8
      in if frameSize > 1000 \<or> bp = 0
         then (32, sp + 32 - 8, print (StrangeFrame sp bp) s)
         else (frameSize, bp, s))"

text \<open>
  Lines 123 to 128: the scan of the words above the return address, started with
  \<open>i = 8\<close>. The result is the final \<open>i\<close> and \<open>nextbp\<close>, or \<open>None\<close> when a slice
  expression panics.
\<close>

function scan :: "byte list \<Rightarrow> u64 \<Rightarrow> u64 \<Rightarrow> u64 \<Rightarrow> u64 \<Rightarrow> (u64 \<times> u64) option" where
  "scan b sp bp i nextbp =
     (if sp + i \<le> bp then
        (case slice b i (i + 8) of
           None \<Rightarrow> None
         | Some c \<Rightarrow> scan b sp bp (i + 8) (if sp + i = bp then Uint64 c else nextbp))
      else Some (i, nextbp))"
  by pat_completeness auto

termination scan
proof (relation "measure (\<lambda>(b, sp, bp, i, nextbp). length b - unat i)")
  show "wf (measure (\<lambda>(b, sp, bp, i, nextbp). length b - unat i))" by simp
next
  fix b :: "byte list" and sp bp i nextbp :: u64 and c
  assume "sp + i \<le> bp" and c: "slice b i (i + 8) = Some c"
  from c have le: "i \<le> i + 8" and len: "unat (i + 8) \<le> length b"
    by (auto simp: slice_def split: if_splits)
  have "i \<noteq> i + 8" by simp
  with le have "i < i + 8" by (simp add: order.strict_iff_order)
  then have "unat i < unat (i + 8)" by (simp add: word_less_nat_alt)
  with len
  show "((b, sp, bp, i + 8, if sp + i = bp then Uint64 c else nextbp), (b, sp, bp, i, nextbp))
          \<in> measure (\<lambda>(b, sp, bp, i, nextbp). length b - unat i)"
    by simp
qed

declare scan.simps [simp del]

text \<open>
  One iteration of the loop of \<^verbatim>\<open>OutputStack\<close> (lines 97 to 136). \<open>Inl\<close> is a panic.
  \<open>Inr\<close> carries whether the loop was left by \<^verbatim>\<open>break\<close>, the struct, and the variables
  \<open>sp\<close>, \<open>bp\<close> and \<open>nextbp\<close> as the iteration leaves them.
\<close>

definition frame_step ::
  "Debugger \<Rightarrow> int \<Rightarrow> u64 \<Rightarrow> u64 \<Rightarrow> u64 \<Rightarrow> sys \<Rightarrow>
     (panic \<times> sys) + (bool \<times> Debugger \<times> u64 \<times> u64 \<times> u64 \<times> sys)" where
  "frame_step d pid sp bp nextbp s =
     (case frame_bounds sp bp s of (frameSize, bp1, s1) \<Rightarrow>
      case PtracePeekData pid sp (make_bytes (unat frameSize)) s1 of ((b, ok), s2) \<Rightarrow>
        if \<not> ok then Inl (PeekError, s2)
        else
          (case slice b 0 (0 + 8) of
             None \<Rightarrow> Inl (SliceBounds, s2)
           | Some c \<Rightarrow>
               (case (case PCToLine (SymTable d) (Uint64 c) of
                        None \<Rightarrow> (d, s2)
                      | Some (file, lineno, nextfn) \<Rightarrow>
                          (d\<lparr>Fn := Some nextfn\<rparr>, print (CalledBy (Name nextfn) lineno) s2))
                of (d1, s3) \<Rightarrow>
                  (case scan b sp bp1 8 nextbp of
                     None \<Rightarrow> Inl (SliceBounds, s3)
                   | Some (i, nextbp1) \<Rightarrow>
                       (case Fn d1 of
                          None \<Rightarrow> Inl (NilPointer, s3)
                        | Some f \<Rightarrow>
                            if Name f = ''main.main'' \<or> Name f = ''runtime.main''
                            then Inr (True, d1, sp, bp1, nextbp1, s3)
                            else Inr (False, d1, sp + i, nextbp1, nextbp1, s3))))))"

text \<open>The loop itself. It has no bound of its own: \<open>None\<close> is the walk that never ends.\<close>

partial_function (option) walk ::
  "Debugger \<Rightarrow> int \<Rightarrow> u64 \<Rightarrow> u64 \<Rightarrow> u64 \<Rightarrow> sys \<Rightarrow> Debugger outcome option" where
  "walk d pid sp bp nextbp s =
     (case frame_step d pid sp bp nextbp s of
        Inl (p, s1) \<Rightarrow> Some (Panic p s1)
      | Inr (stop, d1, sp1, bp1, nextbp1, s1) \<Rightarrow>
          if stop then Some (Return d1 s1) else walk d1 pid sp1 bp1 nextbp1 s1)"

definition OutputStack ::
  "Debugger \<Rightarrow> int \<Rightarrow> u64 \<Rightarrow> u64 \<Rightarrow> u64 \<Rightarrow> sys \<Rightarrow> Debugger outcome option" where
  "OutputStack d pid ip sp bp s =
     (case walk (d\<lparr>Fn := map_option (\<lambda>(file, line, fn). fn) (PCToLine (SymTable d) ip)\<rparr>)
             pid sp bp 0 s of
        None \<Rightarrow> None
      | Some (Return d1 s1) \<Rightarrow> Some (Return d1 (print Blank s1))
      | Some other \<Rightarrow> Some other)"

section \<open>Trace Session: the control loop\<close>

text \<open>
  \<^verbatim>\<open>syscall.WaitStatus\<close> on Linux is a 32-bit word; its methods and the two constants
  are those of the Go standard library.
\<close>

definition Exited :: "u32 \<Rightarrow> bool" where
  "Exited w = (w AND 0x7F = 0)"

definition Stopped :: "u32 \<Rightarrow> bool" where
  "Stopped w = (w AND 0xFF = 0x7F)"

definition StopSignal :: "u32 \<Rightarrow> int" where
  "StopSignal w = (if \<not> Stopped w then - 1 else uint (drop_bit 8 w AND 0xFF))"

definition SIGTRAP :: int where
  "SIGTRAP = 5"

definition PTRACE_EVENT_CLONE :: int where
  "PTRACE_EVENT_CLONE = 3"

definition TrapCause :: "u32 \<Rightarrow> int" where
  "TrapCause w = (if StopSignal w \<noteq> SIGTRAP then - 1 else uint (drop_bit 8 w) div 2 ^ 8)"

text \<open>
  One return of \<^verbatim>\<open>Wait4\<close>: what the traced process has done to its memory while it ran
  (\<open>ran\<close>), the process and status reported, and what the kernel answers to the
  requests the loop makes on that tracee before it waits again: the registers
  \<^verbatim>\<open>PtraceGetRegs\<close> delivers (\<open>None\<close> when it fails), and whether \<^verbatim>\<open>PtraceCont\<close> or
  \<^verbatim>\<open>PtraceSingleStep\<close> fails.
\<close>

record wait_event =
  ran :: "(u64 \<Rightarrow> byte option) \<Rightarrow> (u64 \<Rightarrow> byte option)"
  wpid :: int
  status :: u32
  wait_err :: bool
  regs :: "PtraceRegs option"
  resume_err :: bool

text \<open>\<^verbatim>\<open>must(syscall.PtraceCont(wpid, 0))\<close> and \<^verbatim>\<open>must(syscall.PtraceSingleStep(wpid))\<close>.\<close>

definition must_resume :: "bool \<Rightarrow> int \<Rightarrow> bool \<Rightarrow> Debugger \<Rightarrow> sys \<Rightarrow> (bool \<times> Debugger) outcome" where
  "must_resume cont p err d s =
     (let s1 = record_call (if cont then Cont p else SingleStep p) s
      in if err then Panic MustError s1 else Return (False, d) s1)"

text \<open>Lines 183 to 186: the restore of the single-shot breakpoint.\<close>

definition restore_break :: "Debugger \<Rightarrow> int \<Rightarrow> sys \<Rightarrow> Debugger \<times> sys" where
  "restore_break d p s =
     (if BreakpointSet d
      then (case ReplaceCode p (PC d) (OriginalCode d) s of
              (discarded, s1) \<Rightarrow> (d\<lparr>BreakpointSet := False\<rparr>, s1))
      else (d, s))"

text \<open>Lines 178 to 192: the handling of a genuine trap.\<close>

definition trap_stop :: "Debugger \<Rightarrow> wait_event \<Rightarrow> sys \<Rightarrow> (bool \<times> Debugger) outcome option" where
  "trap_stop d ev s =
     (let s1 = record_call (GetRegs (wpid ev)) s
      in case regs ev of
           None \<Rightarrow> Some (Panic MustError s1)
         | Some r \<Rightarrow>
             (let d1 = d\<lparr>Regs := r\<rparr>
              in case PCToLine (SymTable d1) (Rip (Regs d1)) of
                   None \<Rightarrow> Some (Panic NilPointer s1)
                 | Some (filename, line, fn) \<Rightarrow>
                     (case OutputStack d1 (wpid ev) (Rip (Regs d1)) (Rsp (Regs d1)) (Rbp (Regs d1))
                             (print (StoppedAt (Name fn) line filename) s1) of
                        None \<Rightarrow> None
                      | Some (Return d2 s2) \<Rightarrow>
                          (case restore_break d2 (wpid ev) s2 of
                             (d3, s3) \<Rightarrow>
                               (case InputOrContinue d3 (wpid ev) s3 of
                                  Return (cont, d4) s4 \<Rightarrow>
                                    Some (must_resume cont (wpid ev) (resume_err ev) d4 s4)
                                | Panic p s4 \<Rightarrow> Some (Panic p s4)
                                | Exit0 s4 \<Rightarrow> Some (Exit0 s4)
                                | Spin s4 \<Rightarrow> Some (Spin s4)
                                | Blocked s4 \<Rightarrow> Some (Blocked s4)))
                      | Some (Panic p s2) \<Rightarrow> Some (Panic p s2)
                      | Some (Exit0 s2) \<Rightarrow> Some (Exit0 s2)
                      | Some (Spin s2) \<Rightarrow> Some (Spin s2)
                      | Some (Blocked s2) \<Rightarrow> Some (Blocked s2))))"

text \<open>
  One iteration of the loop of \<^verbatim>\<open>RunTarget\<close> (lines 170 to 196) on the event
  \<^verbatim>\<open>Wait4\<close> returns. The Boolean of the result says that the loop was left by
  \<^verbatim>\<open>break\<close>.
\<close>

definition loop_iter :: "Debugger \<Rightarrow> int \<Rightarrow> wait_event \<Rightarrow> sys \<Rightarrow> (bool \<times> Debugger) outcome option" where
  "loop_iter d pid ev s =
     (if wait_err ev then Some (Panic MustError s)
      else
        (let d0 = d\<lparr>Ws := status ev\<rparr>
         in if Exited (Ws d0) then Some (Return (wpid ev = pid, d0) s)
            else if StopSignal (Ws d0) = SIGTRAP \<and> TrapCause (Ws d0) \<noteq> PTRACE_EVENT_CLONE
            then trap_stop d0 ev s
            else Some (must_resume True (wpid ev) (resume_err ev) d0 s)))"

text \<open>The loop of \<^verbatim>\<open>RunTarget\<close> on the events the kernel will deliver.\<close>

fun RunLoop :: "Debugger \<Rightarrow> int \<Rightarrow> wait_event list \<Rightarrow> sys \<Rightarrow> Debugger outcome option" where
  "RunLoop d pid [] s = Some (Blocked s)"
| "RunLoop d pid (ev # evs) s =
     (case loop_iter d pid ev (s\<lparr>mem := ran ev (mem s)\<rparr>) of
        None \<Rightarrow> None
      | Some (Return (stop, d1) s1) \<Rightarrow>
          if stop then Some (Return d1 s1) else RunLoop d1 pid evs s1
      | Some (Panic p s1) \<Rightarrow> Some (Panic p s1)
      | Some (Exit0 s1) \<Rightarrow> Some (Exit0 s1)
      | Some (Spin s1) \<Rightarrow> Some (Spin s1)
      | Some (Blocked s1) \<Rightarrow> Some (Blocked s1))"

text \<open>
  \<^verbatim>\<open>RunTarget\<close> from line 161 on, for the process \<open>pid\<close> the spawn has produced:
  whether \<^verbatim>\<open>PtraceSetOptions\<close> and the first resume fail is given.
\<close>

definition RunTarget ::
  "Debugger \<Rightarrow> int \<Rightarrow> bool \<Rightarrow> bool \<Rightarrow> wait_event list \<Rightarrow> sys \<Rightarrow> Debugger outcome option" where
  "RunTarget d pid setopt_err first_err evs s =
     (if setopt_err then Some (Panic MustError s)
      else
        (case InputOrContinue d pid s of
           Return (cont, d1) s1 \<Rightarrow>
             (case must_resume cont pid first_err d1 s1 of
                Return (stop, d2) s2 \<Rightarrow> RunLoop d2 pid evs s2
              | Panic p s2 \<Rightarrow> Some (Panic p s2)
              | Exit0 s2 \<Rightarrow> Some (Exit0 s2)
              | Spin s2 \<Rightarrow> Some (Spin s2)
              | Blocked s2 \<Rightarrow> Some (Blocked s2))
         | Panic p s1 \<Rightarrow> Some (Panic p s1)
         | Exit0 s1 \<Rightarrow> Some (Exit0 s1)
         | Spin s1 \<Rightarrow> Some (Spin s1)
         | Blocked s1 \<Rightarrow> Some (Blocked s1)))"

section \<open>Observations and concrete inputs\<close>



text \<open>
  A call that started from the struct \<open>d\<close> and the world \<open>s\<close> and ended with \<open>r\<close> has
  only observed: it returned or panicked, it wrote no field of the struct but \<^verbatim>\<open>Fn\<close>, it
  left the memory of the tracee as it was and read no line of input.
\<close>

definition observes :: "Debugger \<Rightarrow> sys \<Rightarrow> Debugger outcome \<Rightarrow> bool" where
  "observes d s r =
     (case r of
        Return d' s' \<Rightarrow> d' = d\<lparr>Fn := Fn d'\<rparr> \<and> mem s' = mem s \<and> stdin s' = stdin s
      | Panic p s' \<Rightarrow> mem s' = mem s \<and> stdin s' = stdin s
      | Exit0 s' \<Rightarrow> False
      | Spin s' \<Rightarrow> False
      | Blocked s' \<Rightarrow> False)"


text \<open>A process without any readable address, nothing typed and nothing printed.\<close>

definition empty_sys :: sys where
  "empty_sys = \<lparr>mem = (\<lambda>a. None), calls = [], stdin = [], stdout = []\<rparr>"


text \<open>
  A symbol table with two functions and two breakable lines of the file \<^verbatim>\<open>t.go\<close>, and
  the debugger \<^verbatim>\<open>Run\<close> would set up for it.
\<close>

definition demo_table :: Table where
  "demo_table =
     \<lparr>PCToLine =
        (\<lambda>pc. if pc = 0x401000 then Some (''t.go'', 3, \<lparr>Name = ''main.f'', Entry = 0x401000\<rparr>)
              else if pc = 0x402000
              then Some (''t.go'', 9, \<lparr>Name = ''main.main'', Entry = 0x402000\<rparr>)
              else None),
      LineToPC =
        (\<lambda>file line. if file = ''t.go'' \<and> line = 10 then Some 0x1000
                      else if file = ''t.go'' \<and> line = 20 then Some 0x2000
                      else None)\<rparr>"

definition demo_debugger :: Debugger where
  "demo_debugger = NewDebugger\<lparr>TargetFile := ''t.go'', SymTable := demo_table\<rparr>"

text \<open>The stop that reports a new thread: \<^verbatim>\<open>SIGTRAP\<close> with the event
  \<^verbatim>\<open>PTRACE_EVENT_CLONE\<close> in the upper half of the status.\<close>

definition clone_event :: wait_event where
  "clone_event =
     \<lparr>ran = (\<lambda>m. m), wpid = 7, status = 0x3057F, wait_err = False, regs = None,
      resume_err = False\<rparr>"


text \<open>
  The memory \<open>m\<close> of the tracee is the image \<open>m0\<close> in which at most the one breakpoint
  the struct \<open>d\<close> knows is planted: with the flag set, the trap byte stands at
  \<^verbatim>\<open>d.PC\<close> and \<^verbatim>\<open>d.OriginalCode\<close> holds the byte of the image (nothing is planted
  where the image is unreadable); with the flag clear, the memory is the image.
\<close>

definition single_trap :: "(u64 \<Rightarrow> byte option) \<Rightarrow> Debugger \<Rightarrow> (u64 \<Rightarrow> byte option) \<Rightarrow> bool" where
  "single_trap m0 d m =
     (if BreakpointSet d
      then (case m0 (PC d) of
              None \<Rightarrow> m = m0
            | Some v \<Rightarrow> m = m0(PC d := Some 0xCC) \<and> OriginalCode d = [v])
      else m = m0)"

text \<open>
  A debugger with a breakpoint planted at line 10 (address \<open>0x1000\<close>) of a process
  whose image is all zero, and the trap stop of that process in \<^verbatim>\<open>main.main\<close> with
  a frame of two words. \<open>typed\<close> is what the operator will enter.
\<close>

definition armed_debugger :: Debugger where
  "armed_debugger =
     demo_debugger\<lparr>Line := 10, PC := 0x1000, Ws := 0x57F, OriginalCode := [0],
                    BreakpointSet := True\<rparr>"

definition armed_sys :: "string list \<Rightarrow> sys" where
  "armed_sys typed =
     \<lparr>mem = (\<lambda>a. Some 0)(0x1000 := Some 0xCC), calls = [], stdin = typed, stdout = []\<rparr>"

definition trap_event :: wait_event where
  "trap_event =
     \<lparr>ran = (\<lambda>m. m), wpid = 7, status = 0x57F, wait_err = False,
      regs = Some \<lparr>Rip = 0x402000, Rsp = 0x7000, Rbp = 0x7008\<rparr>, resume_err = False\<rparr>"

text \<open>The struct and the world in which the menu is then shown.\<close>

definition restored_debugger :: Debugger where
  "restored_debugger =
     armed_debugger
       \<lparr>Regs := \<lparr>Rip = 0x402000, Rsp = 0x7000, Rbp = 0x7008\<rparr>,
        Fn := Some \<lparr>Name = ''main.main'', Entry = 0x402000\<rparr>, BreakpointSet := False\<rparr>"

definition restored_sys :: "string list \<Rightarrow> sys" where
  "restored_sys typed =
     \<lparr>mem = (\<lambda>a. Some 0),
      calls = [GetRegs 7, PeekData 7 0x7000 16, PeekData 7 0x1000 1, PokeData 7 0x1000 [0]],
      stdin = typed, stdout = [StoppedAt ''main.main'' 9 ''t.go'', Blank]\<rparr>"

section \<open>Properties of the breakpoint manager and the menu\<close>

lemma mem_print [simp]: "mem (print x s) = mem s" "stdin (print x s) = stdin s"
  by (simp_all add: print_def)

lemma calls_print [simp]: "calls (print x s) = calls s"
  by (simp add: print_def)

lemma mem_record_call [simp]:
  "mem (record_call c s) = mem s" "stdin (record_call c s) = stdin s"
  "stdout (record_call c s) = stdout s"
  by (simp_all add: record_call_def)


lemma Uint64_zero: "Uint64 (replicate n 0) = 0"
  by (induction n) auto

lemma peek_unreadable: "m a = None \<Longrightarrow> peek m a (replicate (Suc n) 0) = (replicate (Suc n) 0, False)"
  by simp

lemma OutputStack_unreadable:
  "OutputStack demo_debugger 7 0x402000 0x7000 0x7008 empty_sys =
     Some (Panic PeekError (empty_sys\<lparr>calls := [PeekData 7 0x7000 16]\<rparr>))"
proof -
  have n: "(16 :: nat) = Suc 15" by simp
  have pk: "peek (\<lambda>a. None) 0x7000 (replicate 16 0) = (replicate 16 (0 :: byte), False)"
    unfolding n by (rule peek_unreadable) simp
  have fs: "frame_step d 7 0x7000 0x7008 0 empty_sys =
      Inl (PeekError, empty_sys\<lparr>calls := [PeekData 7 0x7000 16]\<rparr>)" for d
    by (simp add: frame_step_def frame_bounds_def PtracePeekData_def make_bytes_def
        empty_sys_def pk record_call_def)
  show ?thesis
    unfolding OutputStack_def
    by (subst walk.simps) (simp add: fs)
qed

lemma ReplaceCode_unreadable:
  "ReplaceCode 1 0x1000 [0xCC] empty_sys =
     ([0], empty_sys\<lparr>calls := [PeekData 1 0x1000 1, PokeData 1 0x1000 [0xCC]]\<rparr>)"
  by (simp add: ReplaceCode_def PtracePeekData_def PtracePokeData_def make_bytes_def
      record_call_def empty_sys_def)

text \<open>
  Claim C3 says that every failure of a peek or a poke is fatal to the session. In
  \<^verbatim>\<open>ReplaceCode\<close> it is not: on a process that is gone both requests report an
  error, and yet \<^verbatim>\<open>ReplaceCode\<close> returns the untouched zero buffer and
  \<^verbatim>\<open>SetBreak\<close> reports the breakpoint of line 10 as set. The stack walk, on the same
  process, panics on its failed peek.
\<close>

theorem ReplaceCode_ignores_errors:
  "snd (fst (PtracePeekData 1 0x1000 [0] empty_sys)) = False
   \<and> fst (PtracePokeData 1 0x1000 [0xCC] empty_sys) = False
   \<and> ReplaceCode 1 0x1000 [0xCC] empty_sys =
       ([0], empty_sys\<lparr>calls := [PeekData 1 0x1000 1, PokeData 1 0x1000 [0xCC]]\<rparr>)
   \<and> SetBreak (demo_debugger\<lparr>Line := 10\<rparr>) 1 empty_sys =
       ((True, [0]), demo_debugger\<lparr>Line := 10, PC := 0x1000\<rparr>,
        empty_sys\<lparr>calls := [PeekData 1 0x1000 1, PokeData 1 0x1000 [0xCC]]\<rparr>)
   \<and> OutputStack demo_debugger 7 0x402000 0x7000 0x7008 empty_sys =
       Some (Panic PeekError (empty_sys\<lparr>calls := [PeekData 7 0x7000 16]\<rparr>))"
proof -
  have "SetBreak (demo_debugger\<lparr>Line := 10\<rparr>) 1 empty_sys =
       ((True, [0]), demo_debugger\<lparr>Line := 10, PC := 0x1000\<rparr>,
        empty_sys\<lparr>calls := [PeekData 1 0x1000 1, PokeData 1 0x1000 [0xCC]]\<rparr>)"
    by (simp add: ReplaceCode_unreadable SetBreak_def demo_debugger_def demo_table_def
        NewDebugger_def)
  moreover have "snd (fst (PtracePeekData 1 0x1000 [0] empty_sys)) = False"
    "fst (PtracePokeData 1 0x1000 [0xCC] empty_sys) = False"
    by (simp_all add: PtracePeekData_def PtracePokeData_def empty_sys_def)
  ultimately show ?thesis
    using ReplaceCode_unreadable OutputStack_unreadable by simp
qed

text \<open>
  Claim C7, as amended. For every file and line the resolver cannot map,
  \<^verbatim>\<open>SetBreak\<close> returns \<open>ok = false\<close> with no saved bytes, prints the failure, issues no
  trace request and leaves the memory of the process alone (the address of the
  breakpoint becomes 0). The session goes on, but without a new prompt: the menu returns
  the verdict continue, and the process is resumed.
\<close>

theorem unresolved_line_continues:
  assumes "LineToPC (SymTable d) (TargetFile d) (fst (Atoi input)) = None"
  shows "SetBreak (d\<lparr>Line := fst (Atoi input)\<rparr>) pid s =
           ((False, []), d\<lparr>Line := fst (Atoi input), PC := 0\<rparr>,
            s\<lparr>stdout := stdout s @ [CantFind (TargetFile d) (fst (Atoi input))]\<rparr>)
         \<and> default_case d pid input s =
             Return (True, d\<lparr>Line := fst (Atoi input), PC := 0, BreakpointSet := False,
                            OriginalCode := []\<rparr>)
               (s\<lparr>stdout := stdout s @ [CantFind (TargetFile d) (fst (Atoi input))]\<rparr>)"
  using assms by (simp add: default_case_def SetBreak_def Let_def print_def)

theorem unresolved_line_continues_witness:
  "LineToPC (SymTable demo_debugger) (TargetFile demo_debugger) (fst (Atoi ''7'')) = None
   \<and> default_case demo_debugger 1 ''7'' empty_sys =
       Return (True, demo_debugger\<lparr>Line := 7, PC := 0, BreakpointSet := False,
                                   OriginalCode := []\<rparr>)
         (empty_sys\<lparr>stdout := [CantFind ''t.go'' 7]\<rparr>)"
proof -
  have a: "fst (Atoi ''7'') = 7"
    by (simp add: Atoi_def is_digit_def digits_value_def)
  have h: "LineToPC (SymTable demo_debugger) (TargetFile demo_debugger) (fst (Atoi ''7'')) = None"
    by (simp add: a demo_debugger_def demo_table_def NewDebugger_def)
  have t: "TargetFile demo_debugger = ''t.go''" "stdout empty_sys = []"
    by (simp_all add: demo_debugger_def NewDebugger_def empty_sys_def)
  from unresolved_line_continues [OF h, of 1 empty_sys] h show ?thesis
    by (simp add: a t)
qed

text \<open>
  The claim as it was stated promises a new prompt. After \<^verbatim>\<open>B\<close> and the unmapped line
  7 the menu returns at once with the verdict continue; the line \<^verbatim>\<open>S\<close> the operator
  has typed next is not read, and nothing is printed after the failure message.
\<close>

theorem unresolved_line_counterexample:
  "InputOrContinue demo_debugger 1 (empty_sys\<lparr>stdin := [''B'', ''7'', ''S'']\<rparr>) =
     Return (True, demo_debugger\<lparr>Line := 7, PC := 0, BreakpointSet := False,
                                 OriginalCode := []\<rparr>)
       (empty_sys\<lparr>stdin := [''S''],
                   stdout := [Menu, LinePrompt ''t.go'', CantFind ''t.go'' 7]\<rparr>)"
  by (simp add: InputOrContinue_def empty_sys_def print_def ToUpper_def upper_char_def
      default_case_def SetBreak_def Atoi_def is_digit_def digits_value_def
      demo_debugger_def demo_table_def NewDebugger_def)




section \<open>Properties of the stack walk\<close>




lemma frame_size_wrapped:
  fixes sp bp :: u64
  assumes "unat bp + 8 < unat sp" and "unat sp - unat bp < 2 ^ 64 - 992"
  shows "bp - sp + 8 > 1000"
proof -
  have sp: "unat sp < 2 ^ 64" using unsigned_less [of sp] by simp
  have 1: "unat (bp - sp) = unat bp + 2 ^ 64 - unat sp"
    using assms by (simp add: unat_sub_if' word_size)
  have "unat (bp - sp + 8) = (unat (bp - sp) + 8) mod 2 ^ 64"
    by (simp add: unat_word_ariths)
  also have "\<dots> = unat bp + 2 ^ 64 - unat sp + 8"
    using assms sp 1 by simp
  finally have "unat (bp - sp + 8) > 1000" using assms sp by simp
  then show ?thesis by (simp add: word_less_nat_alt)
qed

text \<open>
  Claim C9, as amended. The frame size is computed in unsigned 64-bit arithmetic: for
  every pair with \<open>sp > bp + 8\<close> and \<open>sp - bp < 2^64 - 992\<close> the value
  \<open>bp - sp + 8\<close> wraps around to more than 1000, and the 32-byte fallback is taken.
\<close>

theorem frame_below_sp_fallback:
  fixes sp bp :: u64
  assumes "unat bp + 8 < unat sp" and "unat sp - unat bp < 2 ^ 64 - 992"
  shows "bp - sp + 8 > 1000
         \<and> frame_bounds sp bp s = (32, sp + 32 - 8, print (StrangeFrame sp bp) s)"
  using frame_size_wrapped [OF assms] by (simp add: frame_bounds_def Let_def)

theorem frame_below_sp_fallback_witness:
  "unat (0x7FFC0010 :: u64) + 8 < unat (0x7FFC0100 :: u64)
   \<and> unat (0x7FFC0100 :: u64) - unat (0x7FFC0010 :: u64) < 2 ^ 64 - 992
   \<and> (0x7FFC0010 :: u64) - 0x7FFC0100 + 8 > 1000
   \<and> frame_bounds 0x7FFC0100 0x7FFC0010 empty_sys =
       (32, 0x7FFC0118, print (StrangeFrame 0x7FFC0100 0x7FFC0010) empty_sys)"
proof -
  have h1: "unat (0x7FFC0010 :: u64) + 8 < unat (0x7FFC0100 :: u64)" by simp
  have h2: "unat (0x7FFC0100 :: u64) - unat (0x7FFC0010 :: u64) < 2 ^ 64 - 992" by simp
  from frame_below_sp_fallback [OF h1 h2, of empty_sys] h1 h2 show ?thesis by simp
qed

text \<open>
  The claim as it was stated fails where \<open>sp - bp\<close> is within 992 of \<open>2^64\<close>: with
  \<open>bp = 1\<close> and \<open>sp = 2^64 - 1\<close> the frame size wraps around to 10 and no fallback
  is taken.
\<close>

theorem frame_below_sp_counterexample:
  "unat (1 :: u64) + 8 < unat (0xFFFFFFFFFFFFFFFF :: u64)
   \<and> \<not> ((1 :: u64) - 0xFFFFFFFFFFFFFFFF + 8 > 1000)
   \<and> frame_bounds 0xFFFFFFFFFFFFFFFF 1 empty_sys = (10, 1, empty_sys)"
  by (simp add: frame_bounds_def)

lemma frame_bounds_mem:
  "frame_bounds sp bp s = (fs, bp1, s1) \<Longrightarrow> mem s1 = mem s \<and> stdin s1 = stdin s"
  by (auto simp: frame_bounds_def Let_def split: if_splits)

lemma frame_step_Inl:
  assumes "frame_step d pid sp bp nextbp s = Inl (p, s1)"
  shows "mem s1 = mem s \<and> stdin s1 = stdin s"
proof -
  obtain fs bp1 s0 where fb: "frame_bounds sp bp s = (fs, bp1, s0)"
    by (cases "frame_bounds sp bp s") auto
  from frame_bounds_mem [OF fb] have m: "mem s0 = mem s" "stdin s0 = stdin s" by simp_all
  from assms show ?thesis
    unfolding frame_step_def fb
    by (auto simp: PtracePeekData_def m split: option.splits prod.splits if_splits)
qed

lemma frame_step_Inr:
  assumes "frame_step d pid sp bp nextbp s = Inr (stop, d1, sp1, bp1, nextbp1, s1)"
  shows "d1 = d\<lparr>Fn := Fn d1\<rparr> \<and> mem s1 = mem s \<and> stdin s1 = stdin s"
proof -
  obtain fs bp0 s0 where fb: "frame_bounds sp bp s = (fs, bp0, s0)"
    by (cases "frame_bounds sp bp s") auto
  from frame_bounds_mem [OF fb] have m: "mem s0 = mem s" "stdin s0 = stdin s" by simp_all
  from assms show ?thesis
    unfolding frame_step_def fb
    by (auto simp: PtracePeekData_def m split: option.splits prod.splits if_splits)
qed

lemma Fn_update_trans:
  "d1 = d\<lparr>Fn := Fn d1\<rparr> \<Longrightarrow> d2 = d1\<lparr>Fn := Fn d2\<rparr> \<Longrightarrow> d2 = d\<lparr>Fn := Fn d2\<rparr>"
proof -
  assume a: "d1 = d\<lparr>Fn := Fn d1\<rparr>" and b: "d2 = d1\<lparr>Fn := Fn d2\<rparr>"
  have "d2 = (d\<lparr>Fn := Fn d1\<rparr>)\<lparr>Fn := Fn d2\<rparr>" using a b by simp
  then show ?thesis by simp
qed

lemma walk_observes:
  assumes "walk d pid sp bp nextbp s = Some r"
  shows "observes d s r"
proof (rule walk.raw_induct [where P = "\<lambda>d pid sp bp nextbp s r. observes d s r", OF _ assms])
  fix f :: "Debugger \<Rightarrow> int \<Rightarrow> u64 \<Rightarrow> u64 \<Rightarrow> u64 \<Rightarrow> sys \<Rightarrow> Debugger outcome option"
    and d pid sp bp nextbp s r
  assume IH: "\<And>d pid sp bp nextbp s r. f d pid sp bp nextbp s = Some r \<Longrightarrow> observes d s r"
    and eq: "(case frame_step d pid sp bp nextbp s of
                Inl (p, s1) \<Rightarrow> Some (Panic p s1)
              | Inr (stop, d1, sp1, bp1, nextbp1, s1) \<Rightarrow>
                  if stop then Some (Return d1 s1) else f d1 pid sp1 bp1 nextbp1 s1) = Some r"
  show "observes d s r"
  proof (cases "frame_step d pid sp bp nextbp s")
    case (Inl a)
    then obtain p s1 where a: "frame_step d pid sp bp nextbp s = Inl (p, s1)"
      by (cases a) auto
    with eq have "r = Panic p s1" by simp
    with frame_step_Inl [OF a] show ?thesis by (simp add: observes_def)
  next
    case (Inr b)
    then obtain stop d1 sp1 bp1 nextbp1 s1
      where b: "frame_step d pid sp bp nextbp s = Inr (stop, d1, sp1, bp1, nextbp1, s1)"
      by (cases b) auto
    from frame_step_Inr [OF b]
    have d1: "d1 = d\<lparr>Fn := Fn d1\<rparr>" and m: "mem s1 = mem s" "stdin s1 = stdin s"
      by simp_all
    show ?thesis
    proof (cases stop)
      case True
      with eq b have "r = Return d1 s1" by simp
      with d1 m show ?thesis by (simp add: observes_def)
    next
      case False
      with eq b have "f d1 pid sp1 bp1 nextbp1 s1 = Some r" by simp
      from IH [OF this] have o: "observes d1 s1 r" .
      show ?thesis
      proof (cases r)
        case (Return d' s')
        with o have d': "d' = d1\<lparr>Fn := Fn d'\<rparr>" and m': "mem s' = mem s1" "stdin s' = stdin s1"
          by (simp_all add: observes_def)
        from Fn_update_trans [OF d1 d'] m m' Return show ?thesis
          by (simp add: observes_def)
      qed (use o m in \<open>simp_all add: observes_def\<close>)
    qed
  qed
qed

lemma OutputStack_observes:
  assumes "OutputStack d pid ip sp bp s = Some r"
  shows "observes d s r"
proof -
  let ?d0 = "d\<lparr>Fn := map_option (\<lambda>(file, line, fn). fn) (PCToLine (SymTable d) ip)\<rparr>"
  from assms obtain r0 where w: "walk ?d0 pid sp bp 0 s = Some r0"
    by (auto simp: OutputStack_def split: option.splits)
  from walk_observes [OF w] have o: "observes ?d0 s r0" .
  from assms w have r: "r = (case r0 of Return d1 s1 \<Rightarrow> Return d1 (print Blank s1) | other \<Rightarrow> other)"
    by (auto simp: OutputStack_def split: outcome.splits)
  show ?thesis
  proof (cases r0)
    case (Return d1 s1)
    with o have "d1 = ?d0\<lparr>Fn := Fn d1\<rparr>" and "mem s1 = mem s" "stdin s1 = stdin s"
      by (simp_all add: observes_def)
    then have "d1 = d\<lparr>Fn := Fn d1\<rparr>" and "mem s1 = mem s" "stdin s1 = stdin s" by simp_all
    with r Return show ?thesis by (simp add: observes_def)
  qed (use o r in \<open>simp_all add: observes_def\<close>)
qed


lemma scan_frame16: "scan (replicate 16 0) 0x7000 0x7008 8 nb = Some (16, 0)"
  apply (subst scan.simps)
  apply (simp add: slice_def Uint64_zero)
  apply (subst scan.simps)
  apply simp
  done

lemma OutputStack_one_frame:
  assumes tab: "SymTable d = demo_table"
    and pk: "peek (mem s) 0x7000 (replicate 16 0) = (replicate 16 0, True)"
  shows "OutputStack d 7 0x402000 0x7000 0x7008 s =
     Some (Return (d\<lparr>Fn := Some \<lparr>Name = ''main.main'', Entry = 0x402000\<rparr>\<rparr>)
             (print Blank (record_call (PeekData 7 0x7000 16) s)))"
proof -
  have pc: "PCToLine (SymTable d) 0x402000 =
      Some (''t.go'', 9, \<lparr>Name = ''main.main'', Entry = 0x402000\<rparr>)"
      "PCToLine (SymTable d) 0 = None"
    by (simp_all add: tab demo_table_def)
  have fs: "frame_step (d\<lparr>Fn := Some \<lparr>Name = ''main.main'', Entry = 0x402000\<rparr>\<rparr>) 7
       0x7000 0x7008 0 s =
     Inr (True, d\<lparr>Fn := Some \<lparr>Name = ''main.main'', Entry = 0x402000\<rparr>\<rparr>,
          0x7000, 0x7008, 0, record_call (PeekData 7 0x7000 16) s)"
    by (simp add: frame_step_def frame_bounds_def PtracePeekData_def make_bytes_def pk
      slice_def scan_frame16 Uint64_zero pc)
  show ?thesis
    unfolding OutputStack_def
    by (subst walk.simps) (simp add: fs pc)
qed





lemma peek_ok:
  "peek m a buf = (r, True) \<Longrightarrow>
     length r = length buf \<and> (\<forall>k < length buf. m (a + of_nat k) \<noteq> None)"
proof (induction buf arbitrary: a r)
  case Nil
  then show ?case by simp
next
  case (Cons b bs)
  from Cons.prems obtain v r' where v: "m a = Some v" and p: "peek m (a + 1) bs = (r', True)"
    and r: "r = v # r'"
    by (auto split: option.splits prod.splits)
  from Cons.IH [OF p] have len: "length r' = length bs"
    and ok: "\<forall>k < length bs. m (a + 1 + of_nat k) \<noteq> None" by simp_all
  have "m (a + of_nat k) \<noteq> None" if "k < length (b # bs)" for k
  proof (cases k)
    case 0
    with v show ?thesis by simp
  next
    case (Suc j)
    with that have "j < length bs" by simp
    with ok have "m (a + 1 + of_nat j) \<noteq> None" by simp
    with Suc show ?thesis by (simp add: add.assoc)
  qed
  with len r show ?case by simp
qed
















section \<open>Properties of the control loop\<close>

lemma ReplaceCode_effect:
  "ReplaceCode pid a code s = (original, s') \<Longrightarrow>
     original = fst (peek (mem s) a (make_bytes (length code)))
     \<and> mem s' = fst (poke (mem s) a code)
     \<and> calls s' = calls s @ [PeekData pid a (length code), PokeData pid a code]
     \<and> stdin s' = stdin s \<and> stdout s' = stdout s"
  by (auto simp: ReplaceCode_def PtracePeekData_def PtracePokeData_def record_call_def
      make_bytes_def split: prod.splits)

lemma trap_stop_Return:
  assumes "trap_stop d ev s = Some (Return (stop, d') s')"
  obtains r fl ln fn d2 s2 d3 s3 cont d4 s4
  where "regs ev = Some r" and "PCToLine (SymTable d) (Rip r) = Some (fl, ln, fn)"
    and "OutputStack (d\<lparr>Regs := r\<rparr>) (wpid ev) (Rip r) (Rsp r) (Rbp r)
           (print (StoppedAt (Name fn) ln fl) (record_call (GetRegs (wpid ev)) s))
          = Some (Return d2 s2)"
    and "restore_break d2 (wpid ev) s2 = (d3, s3)"
    and "InputOrContinue d3 (wpid ev) s3 = Return (cont, d4) s4"
    and "must_resume cont (wpid ev) (resume_err ev) d4 s4 = Return (stop, d') s'"
  using assms
  by (auto simp: trap_stop_def Let_def split: option.splits outcome.splits prod.splits)

lemma SetBreak_calls:
  "SetBreak d pid s = (r, d', s') \<Longrightarrow> \<exists>cs. calls s' = calls s @ cs"
  by (auto simp: SetBreak_def split: option.splits prod.splits dest!: ReplaceCode_effect)

lemma default_case_calls:
  "default_case d pid input s = Return x s' \<Longrightarrow> \<exists>cs. calls s' = calls s @ cs"
  by (auto simp: default_case_def Let_def split: prod.splits dest!: SetBreak_calls)

lemma menu_loop_calls:
  "menu_loop d pid sub inp s = Return x s' \<Longrightarrow> \<exists>cs. calls s' = calls s @ cs"
proof (induction inp arbitrary: sub s)
  case Nil
  then show ?case
    by (auto split: if_splits dest!: default_case_calls)
next
  case (Cons input rest)
  show ?case
  proof (cases "ToUpper input = ''C'' \<or> ToUpper input = ''S'' \<or> ToUpper input = ''Q''")
    case True
    with Cons.prems show ?thesis by (auto simp: Let_def split: if_splits)
  next
    case F1: False
    show ?thesis
    proof (cases "ToUpper input = ''B''")
      case True
      with F1 Cons.prems
      have "menu_loop d pid True rest (print (LinePrompt (TargetFile d)) (s\<lparr>stdin := rest\<rparr>))
          = Return x s'" by (simp add: Let_def)
      from Cons.IH [OF this] show ?thesis by simp
    next
      case F2: False
      show ?thesis
      proof (cases sub)
        case True
        with F1 F2 Cons.prems have "default_case d pid input (s\<lparr>stdin := rest\<rparr>) = Return x s'"
          by (simp add: Let_def)
        from default_case_calls [OF this] show ?thesis by simp
      next
        case False
        with F1 F2 Cons.prems
        have "menu_loop d pid sub rest (print Menu (print (Unexpected input) (s\<lparr>stdin := rest\<rparr>)))
            = Return x s'" by (simp add: Let_def)
        from Cons.IH [OF this] show ?thesis by simp
      qed
    qed
  qed
qed

lemma menu_loop_no_B:
  "menu_loop d pid False inp s = Return (c, d') s' \<Longrightarrow> \<forall>b \<in> set inp. ToUpper b \<noteq> ''B'' \<Longrightarrow>
     d' = d \<and> mem s' = mem s"
proof (induction inp arbitrary: s)
  case Nil
  then show ?case by simp
next
  case (Cons input rest)
  from Cons.prems(2) have nb: "ToUpper input \<noteq> ''B''" and rest: "\<forall>b \<in> set rest. ToUpper b \<noteq> ''B''"
    by simp_all
  show ?case
  proof (cases "ToUpper input = ''C'' \<or> ToUpper input = ''S'' \<or> ToUpper input = ''Q''")
    case True
    with Cons.prems(1) show ?thesis by (auto simp: Let_def split: if_splits)
  next
    case False
    with nb Cons.prems(1)
    have "menu_loop d pid False rest (print Menu (print (Unexpected input) (s\<lparr>stdin := rest\<rparr>)))
        = Return (c, d') s'" by (simp add: Let_def)
    from Cons.IH [OF this rest] show ?thesis by simp
  qed
qed

lemma InputOrContinue_calls:
  "InputOrContinue d pid s = Return x s' \<Longrightarrow> \<exists>cs. calls s' = calls s @ cs"
  by (auto simp: InputOrContinue_def dest!: menu_loop_calls)

lemma InputOrContinue_no_B:
  "InputOrContinue d pid s = Return (c, d') s' \<Longrightarrow> \<forall>b \<in> set (stdin s). ToUpper b \<noteq> ''B'' \<Longrightarrow>
     d' = d \<and> mem s' = mem s"
  by (auto simp: InputOrContinue_def dest!: menu_loop_no_B)


lemma OutputStack_fields:
  assumes "OutputStack d pid ip sp bp s = Some (Return d' s')"
  shows "PC d' = PC d \<and> OriginalCode d' = OriginalCode d \<and> BreakpointSet d' = BreakpointSet d
         \<and> InterruptCode d' = InterruptCode d \<and> mem s' = mem s \<and> stdin s' = stdin s"
proof -
  from OutputStack_observes [OF assms] have d': "d' = d\<lparr>Fn := Fn d'\<rparr>"
    and m: "mem s' = mem s" "stdin s' = stdin s" by (simp_all add: observes_def)
  have "PC (d\<lparr>Fn := Fn d'\<rparr>) = PC d" "OriginalCode (d\<lparr>Fn := Fn d'\<rparr>) = OriginalCode d"
    "BreakpointSet (d\<lparr>Fn := Fn d'\<rparr>) = BreakpointSet d"
    "InterruptCode (d\<lparr>Fn := Fn d'\<rparr>) = InterruptCode d" by simp_all
  with d' m show ?thesis by metis
qed

lemma single_trap_fields:
  assumes "BreakpointSet d2 = BreakpointSet d" and "PC d2 = PC d"
    and "OriginalCode d2 = OriginalCode d"
  shows "single_trap m0 d2 m = single_trap m0 d m"
  using assms by (simp add: single_trap_def split: option.split)

lemma restore_break_single_trap:
  assumes st: "single_trap m0 d (mem s)" and rb: "restore_break d p s = (d3, s3)"
  shows "\<not> BreakpointSet d3 \<and> mem s3 = m0 \<and> InterruptCode d3 = InterruptCode d"
proof (cases "BreakpointSet d")
  case False
  with st rb show ?thesis by (auto simp: single_trap_def restore_break_def)
next
  case True
  with rb obtain orig where rc: "ReplaceCode p (PC d) (OriginalCode d) s = (orig, s3)"
    and d3: "d3 = d\<lparr>BreakpointSet := False\<rparr>"
    by (auto simp: restore_break_def split: prod.splits)
  from ReplaceCode_effect [OF rc] have m3: "mem s3 = fst (poke (mem s) (PC d) (OriginalCode d))"
    by simp
  have "fst (poke (mem s) (PC d) (OriginalCode d)) = m0"
  proof (cases "m0 (PC d)")
    case None
    with st True have "mem s = m0" by (simp add: single_trap_def)
    with None show ?thesis by (cases "OriginalCode d") simp_all
  next
    case (Some v)
    with st True have "mem s = m0(PC d := Some 0xCC)" and "OriginalCode d = [v]"
      by (simp_all add: single_trap_def)
    with Some show ?thesis by (simp add: fun_upd_idem)
  qed
  with m3 d3 show ?thesis by simp
qed

lemma default_case_single_trap:
  assumes "\<not> BreakpointSet d" and m: "mem s = m0" and ic: "InterruptCode d = [0xCC]"
    and dc: "default_case d pid input s = Return (c, d') s'"
  shows "single_trap m0 d' (mem s') \<and> InterruptCode d' = [0xCC]"
proof (cases "LineToPC (SymTable d) (TargetFile d) (fst (Atoi input))")
  case None
  with dc m ic show ?thesis
    by (auto simp: default_case_def SetBreak_def Let_def single_trap_def)
next
  case (Some pc)
  obtain orig s1 where rc: "ReplaceCode pid pc [0xCC] s = (orig, s1)"
    by (cases "ReplaceCode pid pc [0xCC] s") auto
  from ReplaceCode_effect [OF rc] m
  have o: "orig = fst (peek m0 pc [0])" and m1: "mem s1 = fst (poke m0 pc [0xCC])"
    by (simp_all add: make_bytes_def)
  from dc Some rc ic
  have d': "d' = d\<lparr>Line := fst (Atoi input), PC := pc, BreakpointSet := True, OriginalCode := orig\<rparr>"
    and s': "s' = s1"
    by (auto simp: default_case_def SetBreak_def Let_def)
  show ?thesis
    by (cases "m0 pc") (simp_all add: d' s' o m1 ic single_trap_def)
qed

lemma menu_loop_single_trap:
  assumes "\<not> BreakpointSet d" and "mem s = m0" and "InterruptCode d = [0xCC]"
    and "menu_loop d pid sub inp s = Return (c, d') s'"
  shows "single_trap m0 d' (mem s') \<and> InterruptCode d' = [0xCC]"
  using assms
proof (induction inp arbitrary: sub s)
  case Nil
  then show ?case
    by (auto split: if_splits dest!: default_case_single_trap [rotated 3])
next
  case (Cons input rest)
  note unset = Cons.prems(1) and m = Cons.prems(2) and ic = Cons.prems(3) and ml = Cons.prems(4)
  show ?case
  proof (cases "ToUpper input = ''C'' \<or> ToUpper input = ''S'' \<or> ToUpper input = ''Q''")
    case True
    with ml unset m ic show ?thesis
      by (auto simp: Let_def single_trap_def split: if_splits)
  next
    case F1: False
    show ?thesis
    proof (cases "ToUpper input = ''B''")
      case True
      with F1 ml
      have "menu_loop d pid True rest (print (LinePrompt (TargetFile d)) (s\<lparr>stdin := rest\<rparr>))
          = Return (c, d') s'" by (simp add: Let_def)
      from Cons.IH [OF unset _ ic this] m show ?thesis by simp
    next
      case F2: False
      show ?thesis
      proof (cases sub)
        case True
        with F1 F2 ml have "default_case d pid input (s\<lparr>stdin := rest\<rparr>) = Return (c, d') s'"
          by (simp add: Let_def)
        from default_case_single_trap [OF unset _ ic this] m show ?thesis by simp
      next
        case False
        with F1 F2 ml
        have "menu_loop d pid sub rest (print Menu (print (Unexpected input) (s\<lparr>stdin := rest\<rparr>)))
            = Return (c, d') s'" by (simp add: Let_def)
        from Cons.IH [OF unset _ ic this] m show ?thesis by simp
      qed
    qed
  qed
qed

lemma InputOrContinue_single_trap:
  assumes "\<not> BreakpointSet d" and "mem s = m0" and "InterruptCode d = [0xCC]"
    and "InputOrContinue d pid s = Return (c, d') s'"
  shows "single_trap m0 d' (mem s') \<and> InterruptCode d' = [0xCC]"
  using assms(4) menu_loop_single_trap [OF assms(1) _ assms(3), of "print Menu s" m0]
    assms(2)
  by (simp add: InputOrContinue_def)

lemma single_trap_differs:
  "single_trap m0 d m \<Longrightarrow> m a \<noteq> m0 a \<Longrightarrow> BreakpointSet d \<and> a = PC d"
  by (auto simp: single_trap_def split: if_splits option.splits)

lemma zeros16: "replicate 16 (0 :: byte) = [0, 0, 0, 0, 0, 0, 0, 0, 0, 0, 0, 0, 0, 0, 0, 0]"
  by (simp add: numeral_eq_Suc)

lemma peek_armed: "peek (mem (armed_sys typed)) 0x7000 (replicate 16 0) = (replicate 16 0, True)"
  unfolding zeros16 by (simp add: armed_sys_def)


lemma OutputStack_armed:
  "OutputStack (armed_debugger\<lparr>Regs := r\<rparr>) 7 0x402000 0x7000 0x7008
      (print x (record_call c (armed_sys typed))) =
     Some (Return (armed_debugger\<lparr>Regs := r, Fn := Some \<lparr>Name = ''main.main'', Entry = 0x402000\<rparr>\<rparr>)
             (print Blank (record_call (PeekData 7 0x7000 16)
                (print x (record_call c (armed_sys typed))))))"
proof -
  have tab: "SymTable (armed_debugger\<lparr>Regs := r\<rparr>) = demo_table"
    by (simp add: armed_debugger_def demo_debugger_def)
  have pk: "peek (mem (print x (record_call c (armed_sys typed)))) 0x7000 (replicate 16 0)
      = (replicate 16 0, True)"
    using peek_armed [of typed] by simp
  from OutputStack_one_frame [OF tab pk] show ?thesis by simp
qed

lemma restore_armed:
  "restore_break
     (armed_debugger\<lparr>Regs := r, Fn := Some \<lparr>Name = ''main.main'', Entry = 0x402000\<rparr>\<rparr>) 7
     (print Blank (record_call (PeekData 7 0x7000 16)
        (print (StoppedAt ''main.main'' 9 ''t.go'') (record_call (GetRegs 7) (armed_sys typed))))) =
   (armed_debugger\<lparr>Regs := r, Fn := Some \<lparr>Name = ''main.main'', Entry = 0x402000\<rparr>,
                     BreakpointSet := False\<rparr>, restored_sys typed)"
proof -
  have "((\<lambda>a. Some 0)(0x1000 := Some 0xCC, 0x1000 := Some 0)) = (\<lambda>a :: u64. Some (0 :: byte))"
    by (rule ext) simp
  then show ?thesis
    by (simp add: restore_break_def armed_debugger_def ReplaceCode_def PtracePeekData_def
      PtracePokeData_def make_bytes_def record_call_def print_def armed_sys_def restored_sys_def)
qed

lemma trap_stop_armed:
  "trap_stop armed_debugger trap_event (armed_sys typed) =
     (case InputOrContinue restored_debugger 7 (restored_sys typed) of
        Return (cont, d4) s4 \<Rightarrow> Some (must_resume cont 7 False d4 s4)
      | Panic p s4 \<Rightarrow> Some (Panic p s4)
      | Exit0 s4 \<Rightarrow> Some (Exit0 s4)
      | Spin s4 \<Rightarrow> Some (Spin s4)
      | Blocked s4 \<Rightarrow> Some (Blocked s4))"
proof -
  let ?r = "\<lparr>Rip = 0x402000, Rsp = 0x7000, Rbp = 0x7008\<rparr>"
  have ev: "regs trap_event = Some ?r" "wpid trap_event = 7" "resume_err trap_event = False"
    by (simp_all add: trap_event_def)
  have pc: "PCToLine (SymTable armed_debugger) 0x402000 =
      Some (''t.go'', 9, \<lparr>Name = ''main.main'', Entry = 0x402000\<rparr>)"
    by (simp add: armed_debugger_def demo_debugger_def demo_table_def)
  show ?thesis
    unfolding trap_stop_def Let_def ev
    by (simp add: pc OutputStack_armed restore_armed restored_debugger_def)
qed

lemma Stopped_not_Exited: "Stopped w \<Longrightarrow> \<not> Exited w"
  unfolding Stopped_def Exited_def
proof
  assume a: "w AND 0xFF = 0x7F" and b: "w AND 0x7F = 0"
  have "w AND 0x7F = (w AND 0xFF) AND 0x7F"
    by (simp add: and.assoc)
  with a b show False by simp
qed

text \<open>
  Claim C8. A stop whose signal is not the trap signal, or that reports the creation of a
  thread, is not shown to the operator: the only request of the iteration is a continue
  for that tracee; no register is read, nothing is printed, no line is read from the
  operator, and the loop goes on with the next event. A continue that fails ends the
  session by a panic.
\<close>

theorem other_stop_resumed:
  assumes "\<not> wait_err ev" and "Stopped (status ev)"
    and "StopSignal (status ev) \<noteq> SIGTRAP \<or> TrapCause (status ev) = PTRACE_EVENT_CLONE"
  shows "loop_iter d pid ev s =
           Some (if resume_err ev
                 then Panic MustError (record_call (Cont (wpid ev)) s)
                 else Return (False, d\<lparr>Ws := status ev\<rparr>) (record_call (Cont (wpid ev)) s))
         \<and> (\<not> resume_err ev \<longrightarrow>
              RunLoop d pid (ev # evs) s =
                RunLoop (d\<lparr>Ws := status ev\<rparr>) pid evs
                  (record_call (Cont (wpid ev)) (s\<lparr>mem := ran ev (mem s)\<rparr>)))"
proof -
  have li: "loop_iter d pid ev s =
           Some (if resume_err ev
                 then Panic MustError (record_call (Cont (wpid ev)) s)
                 else Return (False, d\<lparr>Ws := status ev\<rparr>) (record_call (Cont (wpid ev)) s))"
    for s
    using assms Stopped_not_Exited [of "status ev"]
    by (auto simp: loop_iter_def must_resume_def Let_def)
  from li [of s] li [of "s\<lparr>mem := ran ev (mem s)\<rparr>"] show ?thesis by simp
qed

theorem other_stop_resumed_witness:
  "\<not> wait_err clone_event \<and> Stopped (status clone_event)
   \<and> StopSignal (status clone_event) = SIGTRAP
   \<and> TrapCause (status clone_event) = PTRACE_EVENT_CLONE
   \<and> \<not> resume_err clone_event
   \<and> loop_iter NewDebugger 1 clone_event empty_sys =
       Some (Return (False, NewDebugger\<lparr>Ws := 0x3057F\<rparr>)
               (empty_sys\<lparr>calls := [Cont 7]\<rparr>))
   \<and> RunLoop NewDebugger 1 [clone_event] empty_sys =
       Some (Blocked (empty_sys\<lparr>calls := [Cont 7]\<rparr>))"
proof -
  have h1: "\<not> wait_err clone_event" by (simp add: clone_event_def)
  have h2: "Stopped (status clone_event)" by (simp add: clone_event_def Stopped_def)
  have h3: "StopSignal (status clone_event) = SIGTRAP"
    by (simp add: clone_event_def StopSignal_def Stopped_def SIGTRAP_def)
  have h4: "TrapCause (status clone_event) = PTRACE_EVENT_CLONE"
    by (simp add: clone_event_def TrapCause_def StopSignal_def Stopped_def SIGTRAP_def
        PTRACE_EVENT_CLONE_def)
  from h4 have h5: "StopSignal (status clone_event) \<noteq> SIGTRAP
      \<or> TrapCause (status clone_event) = PTRACE_EVENT_CLONE" by simp
  have h6: "\<not> resume_err clone_event" "wpid clone_event = 7" "status clone_event = 0x3057F"
    by (simp_all add: clone_event_def)
  have h7: "record_call (Cont 7) empty_sys = empty_sys\<lparr>calls := [Cont 7]\<rparr>"
    "empty_sys\<lparr>mem := ran clone_event (mem empty_sys)\<rparr> = empty_sys"
    by (simp_all add: record_call_def empty_sys_def clone_event_def)
  note inst = other_stop_resumed [OF h1 h2 h5, of NewDebugger 1 empty_sys "[]"]
  from inst have a: "loop_iter NewDebugger 1 clone_event empty_sys =
       Some (Return (False, NewDebugger\<lparr>Ws := 0x3057F\<rparr>) (empty_sys\<lparr>calls := [Cont 7]\<rparr>))"
    by (simp only: h6 h7 if_False simp_thms)
  from inst h6(1) have "RunLoop NewDebugger 1 [clone_event] empty_sys =
       RunLoop (NewDebugger\<lparr>Ws := 0x3057F\<rparr>) 1 [] (empty_sys\<lparr>calls := [Cont 7]\<rparr>)"
    by (simp only: h6 h7 simp_thms)
  then have b: "RunLoop NewDebugger 1 [clone_event] empty_sys =
       Some (Blocked (empty_sys\<lparr>calls := [Cont 7]\<rparr>))"
    by (simp only: RunLoop.simps)
  from a b h1 h2 h3 h4 h6(1) show ?thesis by (simp only: simp_thms)
qed

text \<open>
  Claim C6. Breakpoints are single-shot. A trap stop that finds a breakpoint active and
  ends with the process resumed has, before the request that resumes it, poked the saved
  bytes at the address of the breakpoint; and unless the operator enters \<^verbatim>\<open>B\<close> at the
  prompt of that stop, the flag is clear and the memory holds the result of that poke when
  the process is resumed.
\<close>

theorem single_shot:
  assumes ts: "trap_stop d ev s = Some (Return (stop, d') s')" and set: "BreakpointSet d"
  shows "(\<exists>cs r. calls s' = cs @ [r] \<and> (r = Cont (wpid ev) \<or> r = SingleStep (wpid ev))
             \<and> PokeData (wpid ev) (PC d) (OriginalCode d) \<in> set cs)
         \<and> ((\<forall>b \<in> set (stdin s). ToUpper b \<noteq> ''B'') \<longrightarrow>
               \<not> BreakpointSet d' \<and> mem s' = fst (poke (mem s) (PC d) (OriginalCode d)))"
proof -
  from ts obtain r fl ln fn d2 s2 d3 s3 cont d4 s4
    where "regs ev = Some r" and "PCToLine (SymTable d) (Rip r) = Some (fl, ln, fn)"
      and os: "OutputStack (d\<lparr>Regs := r\<rparr>) (wpid ev) (Rip r) (Rsp r) (Rbp r)
           (print (StoppedAt (Name fn) ln fl) (record_call (GetRegs (wpid ev)) s))
          = Some (Return d2 s2)"
      and rb: "restore_break d2 (wpid ev) s2 = (d3, s3)"
      and ic: "InputOrContinue d3 (wpid ev) s3 = Return (cont, d4) s4"
      and mr: "must_resume cont (wpid ev) (resume_err ev) d4 s4 = Return (stop, d') s'"
    by (rule trap_stop_Return)
  from OutputStack_fields [OF os]
  have f2: "PC d2 = PC d" "OriginalCode d2 = OriginalCode d" "BreakpointSet d2"
    and m2: "mem s2 = mem s" "stdin s2 = stdin s"
    using set by simp_all
  from rb f2 obtain orig where rc: "ReplaceCode (wpid ev) (PC d) (OriginalCode d) s2 = (orig, s3)"
    and d3: "d3 = d2\<lparr>BreakpointSet := False\<rparr>"
    by (auto simp: restore_break_def split: prod.splits)
  from ReplaceCode_effect [OF rc] m2
  have m3: "mem s3 = fst (poke (mem s) (PC d) (OriginalCode d))"
    and c3: "PokeData (wpid ev) (PC d) (OriginalCode d) \<in> set (calls s3)"
    and i3: "stdin s3 = stdin s" by simp_all
  from InputOrContinue_calls [OF ic] obtain cs where c4: "calls s4 = calls s3 @ cs" by blast
  from mr have s': "s' = record_call (if cont then Cont (wpid ev) else SingleStep (wpid ev)) s4"
    and d': "d' = d4"
    by (auto simp: must_resume_def Let_def split: if_splits)
  have "calls s' = calls s4 @ [if cont then Cont (wpid ev) else SingleStep (wpid ev)]"
    by (simp add: s' record_call_def)
  with c3 c4 have 1: "\<exists>cs r. calls s' = cs @ [r] \<and> (r = Cont (wpid ev) \<or> r = SingleStep (wpid ev))
             \<and> PokeData (wpid ev) (PC d) (OriginalCode d) \<in> set cs"
    by auto
  have 2: "\<not> BreakpointSet d' \<and> mem s' = fst (poke (mem s) (PC d) (OriginalCode d))"
    if "\<forall>b \<in> set (stdin s). ToUpper b \<noteq> ''B''"
  proof -
    from that i3 have "\<forall>b \<in> set (stdin s3). ToUpper b \<noteq> ''B''" by simp
    from InputOrContinue_no_B [OF ic this] have "d4 = d3" "mem s4 = mem s3" by simp_all
    with d3 d' s' m3 show ?thesis by simp
  qed
  from 1 2 show ?thesis by blast
qed



lemma trap_stop_continue:
  "trap_stop armed_debugger trap_event (armed_sys [''c'']) =
     Some (Return (False, restored_debugger)
       ((restored_sys [])\<lparr>calls := calls (restored_sys []) @ [Cont 7],
                          stdout := stdout (restored_sys []) @ [Menu]\<rparr>))"
  unfolding trap_stop_armed
  by (simp add: InputOrContinue_def restored_sys_def print_def ToUpper_def
      upper_char_def must_resume_def record_call_def)


theorem single_shot_witness:
  "trap_stop armed_debugger trap_event (armed_sys [''c'']) =
     Some (Return (False, restored_debugger)
       ((restored_sys [])\<lparr>calls := calls (restored_sys []) @ [Cont 7],
                          stdout := stdout (restored_sys []) @ [Menu]\<rparr>))
   \<and> BreakpointSet armed_debugger
   \<and> stdin (armed_sys [''c'']) = [''c''] \<and> ToUpper ''c'' \<noteq> ''B''
   \<and> PokeData 7 0x1000 [0] \<in> set (calls (restored_sys []))
   \<and> \<not> BreakpointSet restored_debugger
   \<and> mem (restored_sys []) =
       fst (poke (mem (armed_sys [''c''])) (PC armed_debugger) (OriginalCode armed_debugger))"
proof -
  have h1: "BreakpointSet armed_debugger" by (simp add: armed_debugger_def)
  have h2: "\<forall>b \<in> set (stdin (armed_sys [''c''])). ToUpper b \<noteq> ''B''"
    by (simp add: armed_sys_def ToUpper_def upper_char_def)
  have h3: "PokeData 7 0x1000 [0] \<in> set (calls (restored_sys []))"
    by (simp add: restored_sys_def)
  from single_shot [OF trap_stop_continue h1] h2
  have "\<not> BreakpointSet restored_debugger
      \<and> mem ((restored_sys [])\<lparr>calls := calls (restored_sys []) @ [Cont 7],
                                stdout := stdout (restored_sys []) @ [Menu]\<rparr>) =
        fst (poke (mem (armed_sys [''c''])) (PC armed_debugger) (OriginalCode armed_debugger))"
    by blast
  moreover have "stdin (armed_sys [''c'']) = [''c'']" "ToUpper ''c'' \<noteq> ''B''"
    by (simp_all add: armed_sys_def ToUpper_def upper_char_def)
  ultimately show ?thesis using trap_stop_continue h1 h3 by simp
qed

text \<open>
  Claim C1, as amended. In the control loop at most one breakpoint is planted at a time:
  an iteration that starts with the memory of the tracee equal to an image in which at
  most the one breakpoint of the struct is planted ends in such a state again, so the
  memory differs from the image at no address but that of an active breakpoint. The trap
  handler restores the prior trap and clears the flag before it shows the menu, so that
  \<^verbatim>\<open>SetBreak\<close> is only reached with the flag clear. \<^verbatim>\<open>SetBreak\<close> itself neither
  clears a prior trap nor rejects the request.
\<close>

theorem loop_keeps_single_trap:
  assumes st: "single_trap m0 d (mem s)" and ic: "InterruptCode d = [0xCC]"
    and li: "loop_iter d pid ev s = Some (Return (stop, d') s')"
  shows "single_trap m0 d' (mem s') \<and> InterruptCode d' = [0xCC]
         \<and> (\<forall>a. mem s' a \<noteq> m0 a \<longrightarrow> BreakpointSet d' \<and> a = PC d')"
proof -
  let ?d0 = "d\<lparr>Ws := status ev\<rparr>"
  have st0: "single_trap m0 ?d0 (mem s)"
    using st single_trap_fields [of ?d0 d m0 "mem s"] by simp
  have ic0: "InterruptCode ?d0 = [0xCC]" using ic by simp
  have "single_trap m0 d' (mem s') \<and> InterruptCode d' = [0xCC]"
  proof (cases "\<not> Exited (status ev) \<and> StopSignal (status ev) = SIGTRAP
      \<and> TrapCause (status ev) \<noteq> PTRACE_EVENT_CLONE")
    case False
    with li st0 ic0 show ?thesis
      by (auto simp: loop_iter_def Let_def must_resume_def split: if_splits)
  next
    case True
    with li have ts: "trap_stop ?d0 ev s = Some (Return (stop, d') s')"
      by (auto simp: loop_iter_def Let_def split: if_splits)
    from ts obtain r fl ln fn d2 s2 d3 s3 cont d4 s4
      where "regs ev = Some r" and "PCToLine (SymTable ?d0) (Rip r) = Some (fl, ln, fn)"
        and os: "OutputStack (?d0\<lparr>Regs := r\<rparr>) (wpid ev) (Rip r) (Rsp r) (Rbp r)
           (print (StoppedAt (Name fn) ln fl) (record_call (GetRegs (wpid ev)) s))
          = Some (Return d2 s2)"
        and rb: "restore_break d2 (wpid ev) s2 = (d3, s3)"
        and io: "InputOrContinue d3 (wpid ev) s3 = Return (cont, d4) s4"
        and mr: "must_resume cont (wpid ev) (resume_err ev) d4 s4 = Return (stop, d') s'"
      by (rule trap_stop_Return)
    from OutputStack_fields [OF os]
    have f2: "PC d2 = PC d" "OriginalCode d2 = OriginalCode d" "BreakpointSet d2 = BreakpointSet d"
      "InterruptCode d2 = InterruptCode d" and m2: "mem s2 = mem s"
      by simp_all
    from st f2 m2 single_trap_fields [of d2 d m0 "mem s"]
    have st2: "single_trap m0 d2 (mem s2)" by simp
    from restore_break_single_trap [OF st2 rb] f2 ic
    have u3: "\<not> BreakpointSet d3" and m3: "mem s3 = m0" and ic3: "InterruptCode d3 = [0xCC]"
      by simp_all
    from InputOrContinue_single_trap [OF u3 m3 ic3 io]
    have "single_trap m0 d4 (mem s4)" "InterruptCode d4 = [0xCC]" by simp_all
    moreover from mr have "d' = d4" "mem s' = mem s4"
      by (auto simp: must_resume_def Let_def split: if_splits)
    ultimately show ?thesis by simp
  qed
  with single_trap_differs [of m0 d' "mem s'"] show ?thesis by blast
qed

lemma trap_stop_rearm:
  "trap_stop armed_debugger trap_event (armed_sys [''B'', ''20'']) =
     Some (Return (False, restored_debugger\<lparr>Line := 20, PC := 0x2000, BreakpointSet := True,
                                           OriginalCode := [0]\<rparr>)
       ((restored_sys [])\<lparr>mem := (\<lambda>a. Some 0)(0x2000 := Some 0xCC),
            calls := calls (restored_sys []) @ [PeekData 7 0x2000 1, PokeData 7 0x2000 [0xCC], Cont 7],
            stdout := stdout (restored_sys []) @ [Menu, LinePrompt ''t.go'']\<rparr>))"
  unfolding trap_stop_armed
  by (simp add: InputOrContinue_def restored_sys_def print_def ToUpper_def
      upper_char_def must_resume_def record_call_def default_case_def Atoi_def is_digit_def
      digits_value_def SetBreak_def restored_debugger_def armed_debugger_def demo_debugger_def
      demo_table_def NewDebugger_def ReplaceCode_def PtracePeekData_def PtracePokeData_def
      make_bytes_def)


lemma loop_iter_armed:
  "loop_iter armed_debugger 7 trap_event s = trap_stop armed_debugger trap_event s"
proof -
  have upd: "armed_debugger\<lparr>Ws := 0x57F\<rparr> = armed_debugger"
    by (simp add: armed_debugger_def)
  have ev: "wait_err trap_event = False" "status trap_event = 0x57F"
    by (simp_all add: trap_event_def)
  have ws: "Ws armed_debugger = 0x57F" by (simp add: armed_debugger_def)
  have st: "Exited 0x57F = False" "StopSignal 0x57F = SIGTRAP"
    "TrapCause 0x57F \<noteq> PTRACE_EVENT_CLONE"
    by (simp_all add: Exited_def Stopped_def StopSignal_def TrapCause_def SIGTRAP_def
        PTRACE_EVENT_CLONE_def)
  show ?thesis
    unfolding loop_iter_def Let_def ev upd ws
    by (simp only: st if_False if_True simp_thms)
qed

theorem loop_keeps_single_trap_witness:
  "single_trap (\<lambda>a. Some 0) armed_debugger (mem (armed_sys [''B'', ''20'']))
   \<and> InterruptCode armed_debugger = [0xCC]
   \<and> loop_iter armed_debugger 7 trap_event (armed_sys [''B'', ''20'']) =
       Some (Return (False, restored_debugger\<lparr>Line := 20, PC := 0x2000, BreakpointSet := True,
                                             OriginalCode := [0]\<rparr>)
         ((restored_sys [])\<lparr>mem := (\<lambda>a. Some 0)(0x2000 := Some 0xCC),
            calls := calls (restored_sys []) @
                       [PeekData 7 0x2000 1, PokeData 7 0x2000 [0xCC], Cont 7],
            stdout := stdout (restored_sys []) @ [Menu, LinePrompt ''t.go'']\<rparr>))
   \<and> single_trap (\<lambda>a. Some 0)
        (restored_debugger\<lparr>Line := 20, PC := 0x2000, BreakpointSet := True,
                            OriginalCode := [0]\<rparr>)
        ((\<lambda>a. Some 0)(0x2000 := Some 0xCC))"
proof -
  have h1: "single_trap (\<lambda>a. Some 0) armed_debugger (mem (armed_sys [''B'', ''20'']))"
    by (simp add: single_trap_def armed_debugger_def armed_sys_def)
  have h2: "InterruptCode armed_debugger = [0xCC]"
    by (simp add: armed_debugger_def demo_debugger_def NewDebugger_def)
  note h3 = trap_stop_rearm [folded loop_iter_armed]
  from loop_keeps_single_trap [OF h1 h2 h3] h1 h2 h3 show ?thesis by simp
qed

text \<open>
  The claim as it was stated speaks of every state with the flag set. The menu reached
  in such a state, with the trap of line 10 still planted, plants the trap of line 20 as
  well: the request is not rejected and both trap bytes are in memory.
\<close>

theorem second_breakpoint_counterexample:
  "BreakpointSet armed_debugger
   \<and> InputOrContinue armed_debugger 7 (armed_sys [''B'', ''20'']) =
     Return (True, armed_debugger\<lparr>Line := 20, PC := 0x2000, BreakpointSet := True,
                                    OriginalCode := [0]\<rparr>)
       \<lparr>mem = (\<lambda>a. Some 0)(0x1000 := Some 0xCC, 0x2000 := Some 0xCC),
        calls = [PeekData 7 0x2000 1, PokeData 7 0x2000 [0xCC]],
        stdin = [], stdout = [Menu, LinePrompt ''t.go'']\<rparr>"
  by (simp add: InputOrContinue_def armed_sys_def print_def ToUpper_def
      upper_char_def record_call_def default_case_def Atoi_def is_digit_def
      digits_value_def SetBreak_def armed_debugger_def demo_debugger_def
      demo_table_def NewDebugger_def ReplaceCode_def PtracePeekData_def PtracePokeData_def
      make_bytes_def)

end
